theory Spec2Isabelle
  imports Complex_Main
begin

section \<open>Symbolic matrix elements\<close>

text \<open>
  The entries of a gate matrix are expressions of the symbolic library (sympy). The
  embedding keeps of an expression exactly what \<^verbatim>\<open>_gate.py\<close> inspects: its class
  (\<^verbatim>\<open>sympy.Number\<close>, \<^verbatim>\<open>sympy.Mul\<close>, \<^verbatim>\<open>sympy.Add\<close>, a symbol, the imaginary unit, or any
  other function application such as \<^verbatim>\<open>cos\<close>, \<^verbatim>\<open>exp\<close> or a power), its arguments and
  its free symbols. The payload \<open>'n\<close> of a number stays abstract: integers, rationals
  and floats of the library are all instances of \<^verbatim>\<open>sympy.Number\<close>.
  A symbol is identified by its name.
\<close>

datatype 'n expr =
    Number 'n
  | ImaginaryUnit
  | Symbol string
  | Mul "'n expr list"
  | Add "'n expr list"
  | Func string "'n expr list"

text \<open>\<^verbatim>\<open>element.free_symbols\<close>\<close>

fun free_symbols :: "'n expr \<Rightarrow> string set" where
  "free_symbols (Number x) = {}"
| "free_symbols ImaginaryUnit = {}"
| "free_symbols (Symbol s) = {s}"
| "free_symbols (Mul xs) = (\<Union>x \<in> set xs. free_symbols x)"
| "free_symbols (Add xs) = (\<Union>x \<in> set xs. free_symbols x)"
| "free_symbols (Func f xs) = (\<Union>x \<in> set xs. free_symbols x)"

text \<open>
  \<^verbatim>\<open>isinstance(element, sympy.Expr)\<close>: every entry of a \<^verbatim>\<open>sympy.Matrix\<close> is
  sympified when it is stored, and numbers (\<^verbatim>\<open>Number < AtomicExpr < Expr\<close>), symbols,
  the imaginary unit, products, sums and function applications are all subclasses of
  \<^verbatim>\<open>sympy.Expr\<close>.
\<close>

fun isinstance_Expr :: "'n expr \<Rightarrow> bool" where
  "isinstance_Expr (Number x) = True"
| "isinstance_Expr ImaginaryUnit = True"
| "isinstance_Expr (Symbol s) = True"
| "isinstance_Expr (Mul xs) = True"
| "isinstance_Expr (Add xs) = True"
| "isinstance_Expr (Func f xs) = True"

text \<open>\<^verbatim>\<open>isinstance(element, (sympy.Number, sympy.Mul, sympy.Add))\<close>\<close>

fun isinstance_Number_Mul_Add :: "'n expr \<Rightarrow> bool" where
  "isinstance_Number_Mul_Add (Number x) = True"
| "isinstance_Number_Mul_Add (Mul xs) = True"
| "isinstance_Number_Mul_Add (Add xs) = True"
| "isinstance_Number_Mul_Add ImaginaryUnit = False"
| "isinstance_Number_Mul_Add (Symbol s) = False"
| "isinstance_Number_Mul_Add (Func f xs) = False"

text \<open>
  The numeric side of the libraries is a parameter of the model: rounding to floats is
  not described here.
  \<^item> \<open>evalf\<close> is \<^verbatim>\<open>element.evalf()\<close>;
  \<^item> \<open>re_num e\<close> and \<open>im_num e\<close> are the numbers \<^verbatim>\<open>sympy.re(e)\<close> and
    \<^verbatim>\<open>sympy.im(e)\<close> of an expression without free symbols;
  \<^item> \<open>round16\<close> is \<^verbatim>\<open>round(x, 16)\<close>;
  \<^item> \<open>allclose\<close> is \<^verbatim>\<open>np.allclose\<close> on two Python complex numbers, each given by its
    real and imaginary part.
\<close>

record 'n numerics =
  evalf :: "'n expr \<Rightarrow> 'n expr"
  re_num :: "'n expr \<Rightarrow> 'n"
  im_num :: "'n expr \<Rightarrow> 'n"
  round16 :: "'n \<Rightarrow> 'n"
  allclose :: "'n \<times> 'n \<Rightarrow> 'n \<times> 'n \<Rightarrow> bool"

datatype error =
    ValueError_shape "nat \<times> nat" nat
  | ValueError_qubits
  | ValueError_rows
  | TypeError
  | AttributeError string
  | FileNotFoundError string

text \<open>
  \<^verbatim>\<open>complex(sympy.re(element), sympy.im(element))\<close>: the conversion to a Python complex
  goes through \<^verbatim>\<open>float\<close>, which raises \<^verbatim>\<open>TypeError\<close> for an expression that still has
  free symbols.
\<close>

definition py_complex :: "'n numerics \<Rightarrow> 'n expr \<Rightarrow> error + ('n \<times> 'n)" where
  "py_complex N e =
     (if free_symbols e = {} then Inr (re_num N e, im_num N e) else Inl TypeError)"

text \<open>
  \<^verbatim>\<open>Gate.are_elements_equal\<close>. Both halves of the \<^verbatim>\<open>isinstance\<close> test of the source
  look at \<^verbatim>\<open>another_element\<close>.
\<close>

definition are_elements_equal :: "'n numerics \<Rightarrow> 'n expr \<Rightarrow> 'n expr \<Rightarrow> error + bool" where
  "are_elements_equal N element another_element =
     (if element = another_element then Inr True
      else if isinstance_Number_Mul_Add another_element
              \<and> isinstance_Number_Mul_Add another_element then
        (case py_complex N element of
           Inl err \<Rightarrow> Inl err
         | Inr c \<Rightarrow>
             (case py_complex N another_element of
                Inl err \<Rightarrow> Inl err
              | Inr c' \<Rightarrow> Inr (allclose N c c')))
      else Inr False)"

section \<open>Matrices, the object store and gates\<close>

text \<open>
  A \<^verbatim>\<open>sympy.Matrix\<close> is its shape and the flat, row-major list of its entries; iterating
  over the matrix walks that list, and \<^verbatim>\<open>len(matrix)\<close> is \<open>rows * cols\<close>.
\<close>

record 'n smatrix =
  rows :: nat
  cols :: nat
  elems :: "'n expr list"

definition shape :: "'n smatrix \<Rightarrow> nat \<times> nat" where
  "shape M = (rows M, cols M)"

definition len_matrix :: "'n smatrix \<Rightarrow> nat" where
  "len_matrix M = rows M * cols M"

text \<open>
  Matrices are mutable objects: \<^verbatim>\<open>evaluate\<close> and \<^verbatim>\<open>CustomGate.__init__\<close> assign to
  their entries. The store holds every matrix object; an address is an index into it,
  and a new object is appended. A gate holds its tuple of qubits (immutable), the address
  of its matrix and its class. A specialized gate is taken once its matrix has been
  created and cached.
\<close>

type_synonym 'n heap = "'n smatrix list"

datatype gate_class = CustomGate | SpecializedGate

record gate =
  qubits :: "int list"
  matrix_ref :: nat
  cls :: gate_class

text \<open>The property \<^verbatim>\<open>matrix\<close>.\<close>

definition matrix :: "'n heap \<Rightarrow> gate \<Rightarrow> 'n smatrix" where
  "matrix h g = h ! matrix_ref g"

text \<open>\<^verbatim>\<open>copy.deepcopy\<close> of a matrix and of a gate.\<close>

definition deepcopy_matrix :: "'n heap \<Rightarrow> nat \<Rightarrow> 'n heap \<times> nat" where
  "deepcopy_matrix h a = (h @ [h ! a], length h)"

definition deepcopy_gate :: "'n heap \<Rightarrow> gate \<Rightarrow> 'n heap \<times> gate" where
  "deepcopy_gate h g =
     (case deepcopy_matrix h (matrix_ref g) of (h', a') \<Rightarrow> (h', g\<lparr>matrix_ref := a'\<rparr>))"

text \<open>\<^verbatim>\<open>matrix[index]\<close> and \<^verbatim>\<open>matrix[index] = value\<close> on the matrix at an address.\<close>

definition getitem :: "'n heap \<Rightarrow> nat \<Rightarrow> nat \<Rightarrow> 'n expr" where
  "getitem h a i = elems (h ! a) ! i"

definition setitem :: "'n heap \<Rightarrow> nat \<Rightarrow> nat \<Rightarrow> 'n expr \<Rightarrow> 'n heap" where
  "setitem h a i v = h[a := (h ! a)\<lparr>elems := (elems (h ! a))[i := v]\<rparr>]"

text \<open>\<^verbatim>\<open>Gate.symbolic_params\<close>\<close>

definition symbolic_params :: "'n heap \<Rightarrow> gate \<Rightarrow> string set" where
  "symbolic_params h g =
     (\<Union>element \<in> set (filter isinstance_Expr (elems (matrix h g))). free_symbols element)"

text \<open>\<^verbatim>\<open>Gate.is_valid_operator\<close>: \<^verbatim>\<open>matrix.shape == 2 * (2 ** len(qubits),)\<close>\<close>

definition is_valid_operator :: "'n smatrix \<Rightarrow> int list \<Rightarrow> bool" where
  "is_valid_operator M qs \<longleftrightarrow> shape M = (2 ^ length qs, 2 ^ length qs)"

text \<open>\<^verbatim>\<open>Gate.are_qubits_unique\<close>: \<^verbatim>\<open>len(qubits) == len(set(qubits))\<close>\<close>

definition are_qubits_unique :: "int list \<Rightarrow> bool" where
  "are_qubits_unique qs \<longleftrightarrow> length qs = card (set qs)"

text \<open>
  \<^verbatim>\<open>Gate.is_parameterized\<close>: the loop returns True at the first entry that is an
  instance of \<^verbatim>\<open>sympy.Expr\<close>.
\<close>

definition is_parameterized :: "'n heap \<Rightarrow> gate \<Rightarrow> bool" where
  "is_parameterized h g = list_ex isinstance_Expr (elems (matrix h g))"

text \<open>
  \<^verbatim>\<open>Gate.__eq__\<close>. The right operand is any Python object; of those, only a gate has the
  attributes \<^verbatim>\<open>qubits\<close>, \<^verbatim>\<open>matrix\<close> and \<^verbatim>\<open>symbolic_params\<close>. The last loop stops at
  the first pair of entries that differ, and an error raised by a comparison before that
  leaves \<^verbatim>\<open>__eq__\<close>.
\<close>

datatype pyobj = PyNone | PyInt int | PyGate gate

fun getattr_qubits :: "pyobj \<Rightarrow> error + int list" where
  "getattr_qubits (PyGate g) = Inr (qubits g)"
| "getattr_qubits PyNone = Inl (AttributeError ''qubits'')"
| "getattr_qubits (PyInt i) = Inl (AttributeError ''qubits'')"

fun any_not_equal :: "'n numerics \<Rightarrow> ('n expr \<times> 'n expr) list \<Rightarrow> error + bool" where
  "any_not_equal N [] = Inr False"
| "any_not_equal N ((element, another_element) # ps) =
     (case are_elements_equal N element another_element of
        Inl err \<Rightarrow> Inl err
      | Inr b \<Rightarrow> if \<not> b then Inr True else any_not_equal N ps)"

definition Gate_eq_gate :: "'n numerics \<Rightarrow> 'n heap \<Rightarrow> gate \<Rightarrow> gate \<Rightarrow> error + bool" where
  "Gate_eq_gate N h self another_gate =
     (if list_ex (\<lambda>(qubit, another_qubit). qubit \<noteq> another_qubit)
           (zip (qubits self) (qubits another_gate)) then Inr False
      else if len_matrix (matrix h self) \<noteq> len_matrix (matrix h another_gate) then Inr False
      else if symbolic_params h self \<noteq> symbolic_params h another_gate then Inr False
      else
        (case any_not_equal N (zip (elems (matrix h self)) (elems (matrix h another_gate))) of
           Inl err \<Rightarrow> Inl err
         | Inr b \<Rightarrow> if b then Inr False else Inr True))"

definition Gate_eq :: "'n numerics \<Rightarrow> 'n heap \<Rightarrow> gate \<Rightarrow> pyobj \<Rightarrow> error + bool" where
  "Gate_eq N h self other =
     (case getattr_qubits other of
        Inl err \<Rightarrow> Inl err
      | Inr another_qubits \<Rightarrow>
          if length (qubits self) \<noteq> length another_qubits then Inr False
          else (case other of
                  PyGate another_gate \<Rightarrow> Gate_eq_gate N h self another_gate
                | _ \<Rightarrow> Inl (AttributeError ''matrix'')))"

text \<open>
  Numerics without rounding, for running the model on concrete gates: numbers are reals,
  \<^verbatim>\<open>evalf\<close> and \<^verbatim>\<open>round\<close> change nothing, the value of a product or sum is computed
  exactly, and \<^verbatim>\<open>np.allclose(a, b)\<close> is its documented test
  \<open>|a - b| \<le> atol + rtol * |b|\<close> with the default \<open>rtol = 1e-05\<close> and
  \<open>atol = 1e-08\<close>.
\<close>

fun cvalue :: "real expr \<Rightarrow> complex" where
  "cvalue (Number x) = complex_of_real x"
| "cvalue ImaginaryUnit = \<i>"
| "cvalue (Symbol s) = 0"
| "cvalue (Mul xs) = prod_list (map cvalue xs)"
| "cvalue (Add xs) = sum_list (map cvalue xs)"
| "cvalue (Func f xs) = 0"

definition np_allclose :: "real \<times> real \<Rightarrow> real \<times> real \<Rightarrow> bool" where
  "np_allclose a b \<longleftrightarrow>
     cmod (Complex (fst a) (snd a) - Complex (fst b) (snd b))
       \<le> 1 / 10 ^ 8 + 1 / 10 ^ 5 * cmod (Complex (fst b) (snd b))"

definition exact_numerics :: "real numerics" where
  "exact_numerics =
     \<lparr>evalf = (\<lambda>e. e), re_num = (\<lambda>e. Re (cvalue e)), im_num = (\<lambda>e. Im (cvalue e)),
      round16 = (\<lambda>x. x), allclose = np_allclose\<rparr>"

section \<open>Construction and evaluation\<close>

text \<open>
  The loop \<^verbatim>\<open>for index, element in enumerate(m): m[index] = f(element)\<close> on the matrix
  at address \<open>a\<close>: step \<open>index\<close> reads the entry at \<open>index\<close> and writes it back.
\<close>

definition map_in_place :: "('n expr \<Rightarrow> 'n expr) \<Rightarrow> nat \<Rightarrow> 'n heap \<Rightarrow> 'n heap" where
  "map_in_place f a h =
     fold (\<lambda>index h'. setitem h' a index (f (getitem h' a index)))
       [0..<length (elems (h ! a))] h"

text \<open>
  \<^verbatim>\<open>CustomGate.__init__(matrix, qubits)\<close>: the two checks, then a deep copy of the
  argument whose entries are evaluated in place. The argument is the address of the
  caller's matrix.
\<close>

definition CustomGate_init ::
  "'n numerics \<Rightarrow> 'n heap \<Rightarrow> nat \<Rightarrow> int list \<Rightarrow> error + ('n heap \<times> gate)" where
  "CustomGate_init N h matrix_arg qs =
     (if \<not> is_valid_operator (h ! matrix_arg) qs then
        Inl (ValueError_shape (shape (h ! matrix_arg)) (length qs))
      else if \<not> are_qubits_unique qs then Inl ValueError_qubits
      else
        (case deepcopy_matrix h matrix_arg of
           (h1, copied_matrix) \<Rightarrow>
             Inr (map_in_place (evalf N) copied_matrix h1,
                  \<lparr>qubits = qs, matrix_ref = copied_matrix, cls = CustomGate\<rparr>)))"

text \<open>
  The dictionary \<^verbatim>\<open>symbols_map\<close> is an association list from keys to numeric values.
  The signature declares \<^verbatim>\<open>Dict[str, Any]\<close>; a caller can pass a name (a Python
  \<^verbatim>\<open>str\<close>) or a symbol object of the library as a key. The members of
  \<^verbatim>\<open>symbolic_params\<close> are symbol objects, and a \<^verbatim>\<open>str\<close> is never equal to one:
  \<^verbatim>\<open>symbol in self.symbolic_params\<close> holds for a symbol object of the set and for no
  \<^verbatim>\<open>str\<close>. The substitution of the library sympifies its keys, so there a name
  stands for the symbol of that name.
\<close>

datatype dict_key = StrKey string | SymbolKey string

fun key_name :: "dict_key \<Rightarrow> string" where
  "key_name (StrKey s) = s"
| "key_name (SymbolKey s) = s"

fun key_in :: "dict_key \<Rightarrow> string set \<Rightarrow> bool" where
  "key_in (StrKey s) params = False"
| "key_in (SymbolKey s) params = (s \<in> params)"

text \<open>
  \<^verbatim>\<open>element.subs(symbols_map)\<close>. The library also simplifies the result; that step
  belongs to the numeric evaluation that follows it in \<^verbatim>\<open>evaluate\<close>.
\<close>

fun subs :: "(dict_key \<times> 'n) list \<Rightarrow> 'n expr \<Rightarrow> 'n expr" where
  "subs m (Number x) = Number x"
| "subs m ImaginaryUnit = ImaginaryUnit"
| "subs m (Symbol s) =
     (case map_of (map (\<lambda>(k, v). (key_name k, v)) m) s of
        Some v \<Rightarrow> Number v
      | None \<Rightarrow> Symbol s)"
| "subs m (Mul xs) = Mul (map (subs m) xs)"
| "subs m (Add xs) = Add (map (subs m) xs)"
| "subs m (Func f xs) = Func f (map (subs m) xs)"

text \<open>
  \<^verbatim>\<open>isinstance(sympy.re(e), sympy.Number) and isinstance(sympy.im(e), sympy.Number)\<close>
  for an evaluated expression: the real and imaginary part are numbers when no free
  symbol is left, and stay unevaluated otherwise.
\<close>

definition re_im_are_numbers :: "'n expr \<Rightarrow> bool" where
  "re_im_are_numbers e \<longleftrightarrow> free_symbols e = {}"

text \<open>
  A Python \<^verbatim>\<open>complex(a, b)\<close> stored into a matrix is sympified to \<open>a + b*I\<close>, where a
  zero part is dropped.
\<close>

definition sympify_complex :: "'n::zero \<Rightarrow> 'n \<Rightarrow> 'n expr" where
  "sympify_complex a b =
     (if b = 0 then Number a
      else if a = 0 then Mul [Number b, ImaginaryUnit]
      else Add [Number a, Mul [Number b, ImaginaryUnit]])"

text \<open>The body of the loop of \<^verbatim>\<open>evaluate\<close>.\<close>

definition evaluated_element ::
  "'n::zero numerics \<Rightarrow> (dict_key \<times> 'n) list \<Rightarrow> 'n expr \<Rightarrow> 'n expr" where
  "evaluated_element N symbols_map element =
     (let new_element = evalf N (subs symbols_map element)
      in if re_im_are_numbers new_element then
           sympify_complex (round16 N (re_num N new_element)) (round16 N (im_num N new_element))
         else new_element)"

text \<open>
  \<^verbatim>\<open>Gate.evaluate\<close>. The warnings issued are returned with the result, in the order of
  the calls of \<^verbatim>\<open>warnings.warn\<close>.
\<close>

datatype warning =
    NotParameterizedWarning
  | SymbolsNotInGateWarning "string set" "dict_key list"

definition evaluate ::
  "'n::zero numerics \<Rightarrow> 'n heap \<Rightarrow> gate \<Rightarrow> (dict_key \<times> 'n) list
     \<Rightarrow> error + ('n heap \<times> gate \<times> warning list)" where
  "evaluate N h self symbols_map =
     (if \<not> is_parameterized h self then
        (case deepcopy_gate h self of (h', g') \<Rightarrow> Inr (h', g', [NotParameterizedWarning]))
      else
        (let ws = (if list_ex (\<lambda>symbol. \<not> key_in symbol (symbolic_params h self))
                         (map fst symbols_map)
                   then [SymbolsNotInGateWarning (symbolic_params h self) (map fst symbols_map)]
                   else [])
         in case deepcopy_matrix h (matrix_ref self) of
              (h1, evaluated_matrix) \<Rightarrow>
                (case CustomGate_init N
                        (map_in_place (evaluated_element N symbols_map) evaluated_matrix h1)
                        evaluated_matrix (qubits self) of
                   Inl err \<Rightarrow> Inl err
                 | Inr (h3, evaluated_gate) \<Rightarrow> Inr (h3, evaluated_gate, ws))))"

text \<open>
  What \<^verbatim>\<open>CustomGate.__init__\<close> checks, together with the shape of the flat list of a
  library matrix: the invariant of a constructed gate in a store.
\<close>

definition valid_gate :: "'n heap \<Rightarrow> gate \<Rightarrow> bool" where
  "valid_gate h g \<longleftrightarrow>
     matrix_ref g < length h
     \<and> length (elems (matrix h g)) = rows (matrix h g) * cols (matrix h g)
     \<and> is_valid_operator (matrix h g) (qubits g)
     \<and> are_qubits_unique (qubits g)"

section \<open>Serialization\<close>











section \<open>The tree conversion\<close>

text \<open>
  \<^verbatim>\<open>symbolic_expressions.py\<close>: the tree of \<^verbatim>\<open>Symbol\<close>, \<^verbatim>\<open>FunctionCall\<close> and numbers,
  and the conversion \<^verbatim>\<open>expression_tree_from_sympy\<close>, a \<^verbatim>\<open>singledispatch\<close> function.
  A call goes to the implementation registered for the class of the argument and to the
  decorated function when there is none. The source registers no implementation.
\<close>

datatype 'n expression =
    Expression_Symbol string
  | Expression_FunctionCall string "'n expression list"
  | Expression_Number 'n

datatype 'n conversion_error = NotImplementedError "'n expr" string

fun type_name :: "'n expr \<Rightarrow> string" where
  "type_name (Number x) = ''Number''"
| "type_name ImaginaryUnit = ''ImaginaryUnit''"
| "type_name (Symbol s) = ''Symbol''"
| "type_name (Mul xs) = ''Mul''"
| "type_name (Add xs) = ''Add''"
| "type_name (Func f xs) = f"

definition singledispatch ::
  "(string \<times> ('a expr \<Rightarrow> 'b)) list \<Rightarrow> ('a expr \<Rightarrow> 'b) \<Rightarrow> 'a expr \<Rightarrow> 'b" where
  "singledispatch registry default_impl e =
     (case map_of registry (type_name e) of
        Some impl \<Rightarrow> impl e
      | None \<Rightarrow> default_impl e)"

definition registered ::
  "(string \<times> ('n expr \<Rightarrow> 'n conversion_error + 'n expression)) list" where
  "registered = []"

definition expression_tree_from_sympy :: "'n expr \<Rightarrow> 'n conversion_error + 'n expression" where
  "expression_tree_from_sympy expression =
     singledispatch registered
       (\<lambda>expression. Inl (NotImplementedError expression (type_name expression)))
       expression"

section \<open>Concrete gates\<close>

text \<open>
  The Pauli X gate as a custom gate on qubit 0; an identity gate and two gates that
  differ from it in one entry, by \<open>1.000005e-08\<close> and by \<open>1e-09\<close>; a specialized
  gate on qubit 3 with the entry \<open>theta * I\<close>, and its matrix evaluated at
  \<open>theta = 2\<close>; a 3 x 3 and a 4 x 4 matrix.
\<close>

definition x_heap :: "real heap" where
  "x_heap = [\<lparr>rows = 2, cols = 2, elems = [Number 0, Number 1, Number 1, Number 0]\<rparr>]"

definition x_gate :: gate where
  "x_gate = \<lparr>qubits = [0], matrix_ref = 0, cls = CustomGate\<rparr>"

definition close_heap :: "real heap" where
  "close_heap =
     [\<lparr>rows = 2, cols = 2, elems = [Number 1, Number 0, Number 0, Number 1]\<rparr>,
      \<lparr>rows = 2, cols = 2, elems = [Number 1, Number (1000005 / 10 ^ 14), Number 0, Number 1]\<rparr>,
      \<lparr>rows = 2, cols = 2, elems = [Number 1, Number (1 / 10 ^ 9), Number 0, Number 1]\<rparr>]"

definition gate_a :: gate where
  "gate_a = \<lparr>qubits = [0], matrix_ref = 0, cls = CustomGate\<rparr>"

definition gate_b :: gate where
  "gate_b = \<lparr>qubits = [0], matrix_ref = 1, cls = CustomGate\<rparr>"

definition gate_c :: gate where
  "gate_c = \<lparr>qubits = [0], matrix_ref = 2, cls = CustomGate\<rparr>"

definition theta_heap :: "real heap" where
  "theta_heap =
     [\<lparr>rows = 2, cols = 2,
       elems = [Number 1, Number 0, Number 0, Mul [Symbol ''theta'', ImaginaryUnit]]\<rparr>]"

definition theta_gate :: gate where
  "theta_gate = \<lparr>qubits = [3], matrix_ref = 0, cls = SpecializedGate\<rparr>"

definition theta_evaluated :: "real smatrix" where
  "theta_evaluated =
     \<lparr>rows = 2, cols = 2,
      elems = [Number 1, Number 0, Number 0, Mul [Number 2, ImaginaryUnit]]\<rparr>"

definition bad_heap :: "real heap" where
  "bad_heap =
     [\<lparr>rows = 3, cols = 3, elems = replicate 9 (Number 0)\<rparr>,
      \<lparr>rows = 4, cols = 4, elems = replicate 16 (Number 0)\<rparr>]"







section \<open>Element equality\<close>

text \<open>
  Claim C2. The claim makes two elements equal exactly when they are the same expression
  or both are of a numeric-like class (number, product, sum) and close. The source tests
  the class of the second element twice and never that of the first: the imaginary unit,
  which is none of these classes, is compared by closeness against the product
  \<open>x * I\<close>, while the swapped call answers False; and a bare symbol against a number
  raises a type error instead of answering False.
\<close>

theorem are_elements_equal_ignores_first_class:
  "are_elements_equal N ImaginaryUnit (Mul [Number x, ImaginaryUnit]) =
     Inr (allclose N (re_num N ImaginaryUnit, im_num N ImaginaryUnit)
            (re_num N (Mul [Number x, ImaginaryUnit]), im_num N (Mul [Number x, ImaginaryUnit])))
   \<and> are_elements_equal N (Mul [Number x, ImaginaryUnit]) ImaginaryUnit = Inr False
   \<and> are_elements_equal N (Symbol s) (Number x) = Inl TypeError"
  by (simp add: are_elements_equal_def py_complex_def)

section \<open>Parameter introspection\<close>

lemma is_parameterized_nonempty: "is_parameterized h g \<longleftrightarrow> elems (matrix h g) \<noteq> []"
proof -
  have "\<And>xs :: 'a expr list. list_ex isinstance_Expr xs \<longleftrightarrow> xs \<noteq> []"
  proof -
    fix xs :: "'a expr list"
    have all: "\<And>e :: 'a expr. isinstance_Expr e" by (case_tac e) simp_all
    show "list_ex isinstance_Expr xs \<longleftrightarrow> xs \<noteq> []"
      by (cases xs) (simp_all add: all)
  qed
  then show ?thesis by (simp add: is_parameterized_def)
qed


text \<open>
  Claim C3. The claim makes \<^verbatim>\<open>is_parameterized\<close> false for a gate whose matrix has no
  free variable. The source answers True at the first entry that is a library
  expression, and every entry is one: the Pauli X gate, with entries 0 and 1 only, is
  reported as parameterized, while its set of symbolic parameters is empty.
\<close>

theorem is_parameterized_of_numeric_gate:
  "is_parameterized x_heap x_gate \<and> symbolic_params x_heap x_gate = {}"
  by (simp add: is_parameterized_def symbolic_params_def matrix_def x_heap_def x_gate_def)

section \<open>Gate equality\<close>

text \<open>
  Claim C10. \<^verbatim>\<open>__eq__\<close> reads \<^verbatim>\<open>another_gate.qubits\<close> before anything else and has
  no type check: for every gate, comparing with None or with an integer raises an
  attribute error instead of answering False.
\<close>

theorem Gate_eq_without_qubits:
  "Gate_eq N h g PyNone = Inl (AttributeError ''qubits'')
   \<and> Gate_eq N h g (PyInt i) = Inl (AttributeError ''qubits'')"
  by (simp add: Gate_eq_def)

text \<open>The closeness test on two real values.\<close>

lemma np_allclose_real:
  "np_allclose (x, 0) (y, 0) \<longleftrightarrow> \<bar>x - y\<bar> \<le> 1 / 10 ^ 8 + 1 / 10 ^ 5 * \<bar>y\<bar>"
  by (simp add: np_allclose_def cmod_def)

text \<open>
  Claim C8, as stated, fails for symmetry. The tolerance of \<^verbatim>\<open>np.allclose(a, b)\<close> is
  relative to \<open>b\<close>: the identity gate equals the gate whose one entry is
  \<open>1.000005e-08\<close> instead of 0, and that gate does not equal the identity gate.
\<close>

theorem Gate_eq_not_symmetric:
  "Gate_eq exact_numerics close_heap gate_a (PyGate gate_b) = Inr True
   \<and> Gate_eq exact_numerics close_heap gate_b (PyGate gate_a) = Inr False"
  by (simp add: Gate_eq_def Gate_eq_gate_def close_heap_def gate_a_def gate_b_def matrix_def
      len_matrix_def symbolic_params_def are_elements_equal_def py_complex_def exact_numerics_def
      np_allclose_real)

lemma any_not_equal_False_iff:
  "any_not_equal N ps = Inr False \<longleftrightarrow>
     (\<forall>(e, a) \<in> set ps. are_elements_equal N e a = Inr True)"
proof (induction ps)
  case Nil
  show ?case by simp
next
  case (Cons p ps)
  obtain e a where p: "p = (e, a)" by (cases p)
  show ?case
  proof (cases "are_elements_equal N e a")
    case (Inl err)
    then show ?thesis by (simp add: p)
  next
    case (Inr b)
    with Cons.IH show ?thesis by (cases b) (simp_all add: p)
  qed
qed

lemma are_elements_equal_swap:
  assumes "are_elements_equal N e a = Inr True"
    and "e = a \<or> (isinstance_Number_Mul_Add e
           \<and> allclose N (re_num N a, im_num N a) (re_num N e, im_num N e))"
  shows "are_elements_equal N a e = Inr True"
proof (cases "e = a")
  case True
  then show ?thesis by (simp add: are_elements_equal_def)
next
  case False
  with assms(2) have cls: "isinstance_Number_Mul_Add e"
    and close: "allclose N (re_num N a, im_num N a) (re_num N e, im_num N e)"
    by simp_all
  from assms(1) False have "free_symbols e = {} \<and> free_symbols a = {}"
    by (auto simp: are_elements_equal_def py_complex_def split: if_splits sum.splits)
  with False cls close show ?thesis
    by (auto simp: are_elements_equal_def py_complex_def)
qed

lemma Gate_eq_True_iff:
  "Gate_eq N h g1 (PyGate g2) = Inr True \<longleftrightarrow>
     length (qubits g1) = length (qubits g2)
     \<and> (\<forall>(q, q') \<in> set (zip (qubits g1) (qubits g2)). q = q')
     \<and> len_matrix (matrix h g1) = len_matrix (matrix h g2)
     \<and> symbolic_params h g1 = symbolic_params h g2
     \<and> (\<forall>(e, a) \<in> set (zip (elems (matrix h g1)) (elems (matrix h g2))).
           are_elements_equal N e a = Inr True)"
proof -
  have ex: "list_ex (\<lambda>(qubit, another_qubit). qubit \<noteq> another_qubit)
              (zip (qubits g1) (qubits g2))
            \<longleftrightarrow> \<not> (\<forall>(q, q') \<in> set (zip (qubits g1) (qubits g2)). q = q')"
    by (fastforce simp: list_ex_iff)
  have loop: "(case any_not_equal N ps of Inl err \<Rightarrow> Inl err
                | Inr b \<Rightarrow> if b then Inr False else Inr True) = Inr True
              \<longleftrightarrow> any_not_equal N ps = Inr False" for ps
    by (cases "any_not_equal N ps") auto
  show ?thesis
    unfolding Gate_eq_def Gate_eq_gate_def
    by (simp add: ex loop any_not_equal_False_iff)
qed

lemma in_zip_swap: "(a, e) \<in> set (zip ys xs) \<Longrightarrow> (e, a) \<in> set (zip xs ys)"
  by (auto simp: in_set_zip)

lemma Gate_eq_same_content:
  assumes "qubits g1 = qubits g2" and "matrix h g1 = matrix h g2"
  shows "Gate_eq N h g1 (PyGate g2) = Inr True"
  unfolding Gate_eq_True_iff using assms
  by (auto simp: symbolic_params_def zip_same are_elements_equal_def)

lemma deepcopy_gate_content:
  assumes "matrix_ref g < length h" and "deepcopy_gate h g = (h', g')"
  shows "qubits g' = qubits g \<and> cls g' = cls g \<and> matrix h' g' = matrix h g
         \<and> matrix h' g = matrix h g \<and> matrix_ref g' = length h \<and> h' = h @ [matrix h g]"
  using assms by (auto simp: deepcopy_gate_def deepcopy_matrix_def matrix_def nth_append)

text \<open>
  Claim C8, amended. Every gate equals itself; a gate and its deep copy are equal in both
  directions; and when \<open>g1\<close> equals \<open>g2\<close>, then \<open>g2\<close> equals \<open>g1\<close> provided that every
  pair of corresponding entries is either the same expression or has a first entry of
  class number, product or sum that is close to the second with the arguments of the
  closeness test swapped.
\<close>

theorem Gate_eq_reflexive_copy_symmetric:
  "Gate_eq N h g (PyGate g) = Inr True
   \<and> (matrix_ref g < length h \<longrightarrow> deepcopy_gate h g = (h', g') \<longrightarrow>
        Gate_eq N h' g (PyGate g') = Inr True \<and> Gate_eq N h' g' (PyGate g) = Inr True)
   \<and> (Gate_eq N h g1 (PyGate g2) = Inr True \<longrightarrow>
        (\<forall>(e, a) \<in> set (zip (elems (matrix h g1)) (elems (matrix h g2))).
            e = a \<or> (isinstance_Number_Mul_Add e
                      \<and> allclose N (re_num N a, im_num N a) (re_num N e, im_num N e))) \<longrightarrow>
        Gate_eq N h g2 (PyGate g1) = Inr True)"
proof (intro conjI impI)
  show "Gate_eq N h g (PyGate g) = Inr True"
    by (rule Gate_eq_same_content) simp_all
next
  assume "matrix_ref g < length h" and "deepcopy_gate h g = (h', g')"
  then have c: "qubits g' = qubits g" "matrix h' g' = matrix h' g"
    using deepcopy_gate_content by metis+
  show "Gate_eq N h' g (PyGate g') = Inr True"
    by (rule Gate_eq_same_content) (simp_all add: c)
  show "Gate_eq N h' g' (PyGate g) = Inr True"
    by (rule Gate_eq_same_content) (simp_all add: c)
next
  assume eq: "Gate_eq N h g1 (PyGate g2) = Inr True"
    and rev: "\<forall>(e, a) \<in> set (zip (elems (matrix h g1)) (elems (matrix h g2))).
            e = a \<or> (isinstance_Number_Mul_Add e
                      \<and> allclose N (re_num N a, im_num N a) (re_num N e, im_num N e))"
  from eq have fwd: "\<forall>(e, a) \<in> set (zip (elems (matrix h g1)) (elems (matrix h g2))).
           are_elements_equal N e a = Inr True"
    and rest: "length (qubits g1) = length (qubits g2)"
      "\<forall>(q, q') \<in> set (zip (qubits g1) (qubits g2)). q = q'"
      "len_matrix (matrix h g1) = len_matrix (matrix h g2)"
      "symbolic_params h g1 = symbolic_params h g2"
    by (simp_all add: Gate_eq_True_iff)
  have els: "\<forall>(a, e) \<in> set (zip (elems (matrix h g2)) (elems (matrix h g1))).
           are_elements_equal N a e = Inr True"
  proof (clarify)
    fix a e
    assume "(a, e) \<in> set (zip (elems (matrix h g2)) (elems (matrix h g1)))"
    then have m: "(e, a) \<in> set (zip (elems (matrix h g1)) (elems (matrix h g2)))"
      by (rule in_zip_swap)
    from bspec [OF fwd m] have 1: "are_elements_equal N e a = Inr True" by simp
    from bspec [OF rev m] have 2: "e = a \<or> (isinstance_Number_Mul_Add e
        \<and> allclose N (re_num N a, im_num N a) (re_num N e, im_num N e))" by simp
    from 1 2 show "are_elements_equal N a e = Inr True" by (rule are_elements_equal_swap)
  qed
  have qs: "\<forall>(q, q') \<in> set (zip (qubits g2) (qubits g1)). q = q'"
  proof (clarify)
    fix q q'
    assume "(q, q') \<in> set (zip (qubits g2) (qubits g1))"
    then have "(q', q) \<in> set (zip (qubits g1) (qubits g2))" by (rule in_zip_swap)
    from bspec [OF rest(2) this] show "q = q'" by simp
  qed
  show "Gate_eq N h g2 (PyGate g1) = Inr True"
    unfolding Gate_eq_True_iff
    using rest(1) rest(3) rest(4) qs els by (intro conjI) simp_all
qed

text \<open>
  The amended claim at concrete gates: the identity gate, its deep copy, and the gate
  that differs from it by \<open>1e-09\<close> in one entry.
\<close>

theorem Gate_eq_reflexive_copy_symmetric_witness:
  "matrix_ref gate_a < length close_heap
   \<and> deepcopy_gate close_heap gate_a
       = (close_heap @ [matrix close_heap gate_a], gate_a\<lparr>matrix_ref := 3\<rparr>)
   \<and> Gate_eq exact_numerics (close_heap @ [matrix close_heap gate_a]) gate_a
         (PyGate (gate_a\<lparr>matrix_ref := 3\<rparr>)) = Inr True
   \<and> Gate_eq exact_numerics close_heap gate_a (PyGate gate_c) = Inr True
   \<and> list_all (\<lambda>(e, a). e = a \<or> (isinstance_Number_Mul_Add e
             \<and> allclose exact_numerics (re_num exact_numerics a, im_num exact_numerics a)
                  (re_num exact_numerics e, im_num exact_numerics e)))
         (zip (elems (matrix close_heap gate_a)) (elems (matrix close_heap gate_c)))
   \<and> Gate_eq exact_numerics close_heap gate_c (PyGate gate_a) = Inr True"
proof -
  have h1: "matrix_ref gate_a < length close_heap"
    by (simp add: gate_a_def close_heap_def)
  have h2: "deepcopy_gate close_heap gate_a
       = (close_heap @ [matrix close_heap gate_a], gate_a\<lparr>matrix_ref := 3\<rparr>)"
    by (simp add: deepcopy_gate_def deepcopy_matrix_def matrix_def gate_a_def close_heap_def)
  have h3: "Gate_eq exact_numerics close_heap gate_a (PyGate gate_c) = Inr True"
    by (simp add: Gate_eq_def Gate_eq_gate_def close_heap_def gate_a_def gate_c_def matrix_def
      len_matrix_def symbolic_params_def are_elements_equal_def py_complex_def exact_numerics_def
      np_allclose_real)
  have h4: "\<forall>(e, a) \<in> set (zip (elems (matrix close_heap gate_a)) (elems (matrix close_heap gate_c))).
          e = a \<or> (isinstance_Number_Mul_Add e
             \<and> allclose exact_numerics (re_num exact_numerics a, im_num exact_numerics a)
                  (re_num exact_numerics e, im_num exact_numerics e))"
    by (simp add: close_heap_def gate_a_def gate_c_def matrix_def exact_numerics_def
      np_allclose_real)
  from h4 have h5: "list_all (\<lambda>(e, a). e = a \<or> (isinstance_Number_Mul_Add e
             \<and> allclose exact_numerics (re_num exact_numerics a, im_num exact_numerics a)
                  (re_num exact_numerics e, im_num exact_numerics e)))
         (zip (elems (matrix close_heap gate_a)) (elems (matrix close_heap gate_c)))"
    by (simp add: list_all_iff)
  from Gate_eq_reflexive_copy_symmetric
    [of exact_numerics close_heap gate_a "close_heap @ [matrix close_heap gate_a]"
        "gate_a\<lparr>matrix_ref := 3\<rparr>" gate_a gate_c]
  show ?thesis using h1 h2 h3 h4 h5 by blast
qed

section \<open>Construction\<close>

text \<open>The in-place loop replaces the entries of one matrix and touches no other.\<close>

lemma fold_setitem_prefix:
  assumes a: "a < length h"
  shows "k \<le> length (elems (h ! a)) \<Longrightarrow>
     fold (\<lambda>index h'. setitem h' a index (f (getitem h' a index))) [0..<k] h
       = h[a := (h ! a)\<lparr>elems := map f (take k (elems (h ! a))) @ drop k (elems (h ! a))\<rparr>]"
proof (induction k)
  case 0
  show ?case by simp
next
  case (Suc k)
  let ?es = "elems (h ! a)"
  let ?X = "(h ! a)\<lparr>elems := map f (take k ?es) @ drop k ?es\<rparr>"
  from Suc.prems have k: "k < length ?es" by simp
  then have IH: "fold (\<lambda>index h'. setitem h' a index (f (getitem h' a index))) [0..<k] h = h[a := ?X]"
    using Suc.IH by simp
  have rd: "getitem (h[a := ?X]) a k = ?es ! k"
    using a k by (simp add: getitem_def nth_append)
  have upd: "(map f (take k ?es) @ drop k ?es)[k := f (?es ! k)]
               = map f (take (Suc k) ?es) @ drop (Suc k) ?es"
    using k by (simp add: list_update_append take_Suc_conv_app_nth
        Cons_nth_drop_Suc [symmetric])
  have "fold (\<lambda>index h'. setitem h' a index (f (getitem h' a index))) [0..<Suc k] h
          = setitem (h[a := ?X]) a k (f (getitem (h[a := ?X]) a k))"
    by (simp add: IH)
  also have "\<dots> = h[a := (h ! a)\<lparr>elems := map f (take (Suc k) ?es) @ drop (Suc k) ?es\<rparr>]"
    using a by (simp add: rd setitem_def upd)
  finally show ?case .
qed

lemma map_in_place_eq:
  "a < length h \<Longrightarrow> map_in_place f a h = h[a := (h ! a)\<lparr>elems := map f (elems (h ! a))\<rparr>]"
  unfolding map_in_place_def by (simp add: fold_setitem_prefix)

lemma map_in_place_last:
  "map_in_place f (length h) (h @ [M]) = h @ [M\<lparr>elems := map f (elems M)\<rparr>]"
  by (simp add: map_in_place_eq)

lemma are_qubits_unique_distinct: "are_qubits_unique qs \<longleftrightarrow> distinct qs"
  unfolding are_qubits_unique_def by (metis card_distinct distinct_card)

lemma CustomGate_init_ok:
  assumes "is_valid_operator (h ! a) qs" and "are_qubits_unique qs"
  shows "CustomGate_init N h a qs =
           Inr (h @ [(h ! a)\<lparr>elems := map (evalf N) (elems (h ! a))\<rparr>],
                \<lparr>qubits = qs, matrix_ref = length h, cls = CustomGate\<rparr>)"
  using assms by (simp add: CustomGate_init_def deepcopy_matrix_def map_in_place_last)

lemma is_valid_operator_elems [simp]:
  "is_valid_operator (M\<lparr>elems := es\<rparr>) qs = is_valid_operator M qs"
  by (simp add: is_valid_operator_def shape_def)

lemma CustomGate_init_bad_shape:
  "\<not> is_valid_operator (h ! a) qs \<Longrightarrow>
     CustomGate_init N h a qs = Inl (ValueError_shape (shape (h ! a)) (length qs))"
  by (simp add: CustomGate_init_def)

lemma CustomGate_init_repeated:
  "is_valid_operator (h ! a) qs \<Longrightarrow> \<not> are_qubits_unique qs \<Longrightarrow>
     CustomGate_init N h a qs = Inl ValueError_qubits"
  by (simp add: CustomGate_init_def)

text \<open>
  Claim C4. Constructing a custom gate succeeds for every matrix that is square with side
  \<open>2 ^ |qubits|\<close> and every tuple of pairwise distinct qubits; the new gate owns an
  evaluated copy of the matrix. For every other shape it raises the error that reports
  the shape, and for every tuple with a repeated qubit it raises an error whatever the
  matrix is (the uniqueness error when the shape is right).
\<close>

theorem CustomGate_init_accepts_exactly:
  "(rows (h ! a) = 2 ^ length qs \<and> cols (h ! a) = 2 ^ length qs \<and> distinct qs \<longrightarrow>
      CustomGate_init N h a qs =
        Inr (h @ [(h ! a)\<lparr>elems := map (evalf N) (elems (h ! a))\<rparr>],
             \<lparr>qubits = qs, matrix_ref = length h, cls = CustomGate\<rparr>))
   \<and> (\<not> (rows (h ! a) = 2 ^ length qs \<and> cols (h ! a) = 2 ^ length qs) \<longrightarrow>
      CustomGate_init N h a qs = Inl (ValueError_shape (rows (h ! a), cols (h ! a)) (length qs)))
   \<and> (\<not> distinct qs \<longrightarrow> (\<exists>err. CustomGate_init N h a qs = Inl err))
   \<and> (rows (h ! a) = 2 ^ length qs \<and> cols (h ! a) = 2 ^ length qs \<and> \<not> distinct qs \<longrightarrow>
      CustomGate_init N h a qs = Inl ValueError_qubits)"
proof -
  have v: "is_valid_operator (h ! a) qs
             \<longleftrightarrow> rows (h ! a) = 2 ^ length qs \<and> cols (h ! a) = 2 ^ length qs"
    by (simp add: is_valid_operator_def shape_def)
  have s: "shape (h ! a) = (rows (h ! a), cols (h ! a))" by (simp add: shape_def)
  show ?thesis
  proof (intro conjI impI)
    assume "rows (h ! a) = 2 ^ length qs \<and> cols (h ! a) = 2 ^ length qs \<and> distinct qs"
    then have "is_valid_operator (h ! a) qs" and "are_qubits_unique qs"
      by (simp_all add: v are_qubits_unique_distinct)
    then show "CustomGate_init N h a qs =
        Inr (h @ [(h ! a)\<lparr>elems := map (evalf N) (elems (h ! a))\<rparr>],
             \<lparr>qubits = qs, matrix_ref = length h, cls = CustomGate\<rparr>)"
      by (rule CustomGate_init_ok)
  next
    assume "\<not> (rows (h ! a) = 2 ^ length qs \<and> cols (h ! a) = 2 ^ length qs)"
    then have "\<not> is_valid_operator (h ! a) qs" by (simp add: v)
    then show "CustomGate_init N h a qs
                 = Inl (ValueError_shape (rows (h ! a), cols (h ! a)) (length qs))"
      using CustomGate_init_bad_shape [of h a qs N] by (simp add: s)
  next
    assume "\<not> distinct qs"
    then have nu: "\<not> are_qubits_unique qs" by (simp add: are_qubits_unique_distinct)
    show "\<exists>err. CustomGate_init N h a qs = Inl err"
    proof (cases "is_valid_operator (h ! a) qs")
      case True
      with nu show ?thesis by (simp add: CustomGate_init_repeated)
    next
      case False
      then show ?thesis by (simp add: CustomGate_init_bad_shape)
    qed
  next
    assume "rows (h ! a) = 2 ^ length qs \<and> cols (h ! a) = 2 ^ length qs \<and> \<not> distinct qs"
    then have "is_valid_operator (h ! a) qs" and "\<not> are_qubits_unique qs"
      by (simp_all add: v are_qubits_unique_distinct)
    then show "CustomGate_init N h a qs = Inl ValueError_qubits"
      by (rule CustomGate_init_repeated)
  qed
qed

text \<open>
  The three cases at concrete inputs: the X matrix on qubit 0, a 3 x 3 matrix on one
  qubit, and a 4 x 4 matrix on qubits (0, 0).
\<close>

theorem CustomGate_init_accepts_exactly_witness:
  "(rows (x_heap ! 0) = 2 ^ length [0::int] \<and> cols (x_heap ! 0) = 2 ^ length [0::int]
      \<and> distinct [0::int])
   \<and> CustomGate_init exact_numerics x_heap 0 [0] =
        Inr (x_heap @ [x_heap ! 0], \<lparr>qubits = [0], matrix_ref = 1, cls = CustomGate\<rparr>)
   \<and> \<not> (rows (bad_heap ! 0) = 2 ^ length [0::int] \<and> cols (bad_heap ! 0) = 2 ^ length [0::int])
   \<and> CustomGate_init exact_numerics bad_heap 0 [0] = Inl (ValueError_shape (3, 3) 1)
   \<and> (rows (bad_heap ! 1) = 2 ^ length [0::int, 0] \<and> cols (bad_heap ! 1) = 2 ^ length [0::int, 0]
      \<and> \<not> distinct [0::int, 0])
   \<and> (\<exists>err. CustomGate_init exact_numerics bad_heap 1 [0, 0] = Inl err)
   \<and> CustomGate_init exact_numerics bad_heap 1 [0, 0] = Inl ValueError_qubits"
proof -
  have a: "rows (x_heap ! 0) = 2 ^ length [0::int] \<and> cols (x_heap ! 0) = 2 ^ length [0::int]
      \<and> distinct [0::int]"
    by (simp add: x_heap_def)
  have b: "\<not> (rows (bad_heap ! 0) = 2 ^ length [0::int] \<and> cols (bad_heap ! 0) = 2 ^ length [0::int])"
    by (simp add: bad_heap_def)
  have c: "rows (bad_heap ! 1) = 2 ^ length [0::int, 0] \<and> cols (bad_heap ! 1) = 2 ^ length [0::int, 0]
      \<and> \<not> distinct [0::int, 0]"
    by (simp add: bad_heap_def)
  from CustomGate_init_accepts_exactly [of x_heap 0 "[0]" exact_numerics] a
  have 1: "CustomGate_init exact_numerics x_heap 0 [0] =
        Inr (x_heap @ [x_heap ! 0], \<lparr>qubits = [0], matrix_ref = 1, cls = CustomGate\<rparr>)"
    by (simp add: x_heap_def exact_numerics_def)
  from CustomGate_init_accepts_exactly [of bad_heap 0 "[0]" exact_numerics] b
  have 2: "CustomGate_init exact_numerics bad_heap 0 [0] = Inl (ValueError_shape (3, 3) 1)"
    by (simp add: bad_heap_def)
  from CustomGate_init_accepts_exactly [of bad_heap 1 "[0, 0]" exact_numerics] c
  have 3: "CustomGate_init exact_numerics bad_heap 1 [0, 0] = Inl ValueError_qubits"
    and 4: "\<exists>err. CustomGate_init exact_numerics bad_heap 1 [0, 0] = Inl err"
    by blast+
  from a b c 1 2 3 4 show ?thesis by blast
qed

text \<open>A gate that the constructor returns satisfies the invariant.\<close>

lemma CustomGate_init_valid_gate:
  assumes "CustomGate_init N h a qs = Inr (h', g)"
    and "length (elems (h ! a)) = rows (h ! a) * cols (h ! a)"
  shows "valid_gate h' g"
proof -
  from assms(1) have v: "is_valid_operator (h ! a) qs" and u: "are_qubits_unique qs"
    by (auto simp: CustomGate_init_def split: if_splits)
  from assms(1) CustomGate_init_ok [OF v u, of N]
  have h': "h' = h @ [(h ! a)\<lparr>elems := map (evalf N) (elems (h ! a))\<rparr>]"
    and g: "g = \<lparr>qubits = qs, matrix_ref = length h, cls = CustomGate\<rparr>"
    by simp_all
  show ?thesis
    using v u assms(2) by (simp add: valid_gate_def h' g matrix_def)
qed

section \<open>Evaluation\<close>

text \<open>
  The two paths of \<^verbatim>\<open>evaluate\<close> in closed form. With an entry in the matrix the gate
  counts as parameterized: the store gains the substituted copy and the copy made by the
  constructor.
\<close>

lemma evaluate_parameterized:
  assumes "elems (matrix h g) \<noteq> []"
    and "is_valid_operator (matrix h g) (qubits g)" and "are_qubits_unique (qubits g)"
  shows "evaluate N h g m =
     Inr (h @ [(matrix h g)\<lparr>elems := map (evaluated_element N m) (elems (matrix h g))\<rparr>,
               (matrix h g)\<lparr>elems := map (evalf N \<circ> evaluated_element N m) (elems (matrix h g))\<rparr>],
          \<lparr>qubits = qubits g, matrix_ref = Suc (length h), cls = CustomGate\<rparr>,
          if list_ex (\<lambda>symbol. \<not> key_in symbol (symbolic_params h g)) (map fst m)
          then [SymbolsNotInGateWarning (symbolic_params h g) (map fst m)] else [])"
proof -
  let ?M1 = "(matrix h g)\<lparr>elems := map (evaluated_element N m) (elems (matrix h g))\<rparr>"
  have par: "is_parameterized h g" using assms(1) by (simp add: is_parameterized_nonempty)
  have copy: "deepcopy_matrix h (matrix_ref g) = (h @ [matrix h g], length h)"
    by (simp add: deepcopy_matrix_def matrix_def)
  have loop: "map_in_place (evaluated_element N m) (length h) (h @ [matrix h g]) = h @ [?M1]"
    by (rule map_in_place_last)
  have init: "CustomGate_init N (h @ [?M1]) (length h) (qubits g) =
      Inr (h @ [?M1, (matrix h g)\<lparr>elems := map (evalf N \<circ> evaluated_element N m) (elems (matrix h g))\<rparr>],
           \<lparr>qubits = qubits g, matrix_ref = Suc (length h), cls = CustomGate\<rparr>)"
    using CustomGate_init_ok [of "h @ [?M1]" "length h" "qubits g" N] assms(2,3) by simp
  show ?thesis
    unfolding evaluate_def using par by (simp add: copy loop init Let_def)
qed

lemma evaluate_not_parameterized:
  assumes "elems (matrix h g) = []"
  shows "evaluate N h g m =
     Inr (h @ [matrix h g], g\<lparr>matrix_ref := length h\<rparr>, [NotParameterizedWarning])"
  using assms
  by (simp add: evaluate_def is_parameterized_nonempty deepcopy_gate_def deepcopy_matrix_def matrix_def)

lemma evaluate_rejected:
  assumes "elems (matrix h g) \<noteq> []"
    and "\<not> (is_valid_operator (matrix h g) (qubits g) \<and> are_qubits_unique (qubits g))"
  shows "\<exists>err. evaluate N h g m = Inl err"
proof -
  let ?M1 = "(matrix h g)\<lparr>elems := map (evaluated_element N m) (elems (matrix h g))\<rparr>"
  have par: "is_parameterized h g" using assms(1) by (simp add: is_parameterized_nonempty)
  have copy: "deepcopy_matrix h (matrix_ref g) = (h @ [matrix h g], length h)"
    by (simp add: deepcopy_matrix_def matrix_def)
  have loop: "map_in_place (evaluated_element N m) (length h) (h @ [matrix h g]) = h @ [?M1]"
    by (rule map_in_place_last)
  have "\<exists>err. CustomGate_init N (h @ [?M1]) (length h) (qubits g) = Inl err"
  proof (cases "is_valid_operator (matrix h g) (qubits g)")
    case True
    with assms(2) have "\<not> are_qubits_unique (qubits g)" by simp
    with True show ?thesis
      using CustomGate_init_repeated [of "h @ [?M1]" "length h" "qubits g" N] by simp
  next
    case False
    then show ?thesis
      using CustomGate_init_bad_shape [of "h @ [?M1]" "length h" "qubits g" N] by simp
  qed
  then obtain err where "CustomGate_init N (h @ [?M1]) (length h) (qubits g) = Inl err" ..
  then show ?thesis
    unfolding evaluate_def using par by (simp add: copy loop Let_def)
qed

lemma valid_gate_nonempty: "valid_gate h g \<Longrightarrow> elems (matrix h g) \<noteq> []"
  by (auto simp: valid_gate_def is_valid_operator_def shape_def)

lemma evaluate_store:
  assumes "evaluate N h g m = Inr (h', g', ws)"
  shows "\<exists>Ms. h' = h @ Ms \<and> qubits g' = qubits g
           \<and> length h \<le> matrix_ref g' \<and> matrix_ref g' < length h'"
proof (cases "elems (matrix h g) = []")
  case True
  with assms show ?thesis by (auto simp: evaluate_not_parameterized)
next
  case False
  show ?thesis
  proof (cases "is_valid_operator (matrix h g) (qubits g) \<and> are_qubits_unique (qubits g)")
    case True
    with False assms show ?thesis by (auto simp: evaluate_parameterized)
  next
    case no: False
    from evaluate_rejected [OF False no, of N m] assms show ?thesis by auto
  qed
qed

text \<open>
  Claim C5. Whenever \<^verbatim>\<open>evaluate\<close> returns, the gate it returns has the qubits of the
  original and a matrix object that did not exist before, and every matrix that was in
  the store before the call, the original gate's included, is what it was. For every
  gate that satisfies the constructor's checks and every mapping it does return, and the
  result is a custom gate.
\<close>

theorem evaluate_new_gate_frame:
  "(matrix_ref g < length h \<longrightarrow> evaluate N h g m = Inr (h', g', ws) \<longrightarrow>
      qubits g' = qubits g
      \<and> length h \<le> matrix_ref g' \<and> matrix_ref g' < length h'
      \<and> (\<forall>b < length h. h' ! b = h ! b)
      \<and> matrix h' g = matrix h g)
   \<and> (valid_gate h g \<longrightarrow>
        (\<exists>h1 g1 ws1. evaluate N h g m = Inr (h1, g1, ws1) \<and> cls g1 = CustomGate))"
proof (rule conjI)
  show "matrix_ref g < length h \<longrightarrow> evaluate N h g m = Inr (h', g', ws) \<longrightarrow>
      qubits g' = qubits g
      \<and> length h \<le> matrix_ref g' \<and> matrix_ref g' < length h'
      \<and> (\<forall>b < length h. h' ! b = h ! b)
      \<and> matrix h' g = matrix h g"
  proof (intro impI)
    assume a: "matrix_ref g < length h" and e: "evaluate N h g m = Inr (h', g', ws)"
    from evaluate_store [OF e] obtain Ms where Ms: "h' = h @ Ms" "qubits g' = qubits g"
      "length h \<le> matrix_ref g'" "matrix_ref g' < length h'" by blast
    from Ms(1) have frame: "\<forall>b < length h. h' ! b = h ! b" by (simp add: nth_append)
    with a have "matrix h' g = matrix h g" by (simp add: matrix_def)
    with Ms frame show "qubits g' = qubits g
        \<and> length h \<le> matrix_ref g' \<and> matrix_ref g' < length h'
        \<and> (\<forall>b < length h. h' ! b = h ! b)
        \<and> matrix h' g = matrix h g" by simp
  qed
next
  show "valid_gate h g \<longrightarrow>
        (\<exists>h1 g1 ws1. evaluate N h g m = Inr (h1, g1, ws1) \<and> cls g1 = CustomGate)"
  proof
    assume v: "valid_gate h g"
    then have "elems (matrix h g) \<noteq> []" by (rule valid_gate_nonempty)
    moreover from v have "is_valid_operator (matrix h g) (qubits g)" "are_qubits_unique (qubits g)"
      by (simp_all add: valid_gate_def)
    ultimately show "\<exists>h1 g1 ws1. evaluate N h g m = Inr (h1, g1, ws1) \<and> cls g1 = CustomGate"
      by (simp add: evaluate_parameterized)
  qed
qed

lemma valid_theta_gate: "valid_gate theta_heap theta_gate"
  by (simp add: valid_gate_def theta_heap_def theta_gate_def matrix_def is_valid_operator_def
      shape_def are_qubits_unique_def)

lemma symbolic_params_theta_gate: "symbolic_params theta_heap theta_gate = {''theta''}"
  by (simp add: symbolic_params_def theta_heap_def theta_gate_def matrix_def)

lemma evaluated_element_theta:
  "evaluated_element exact_numerics [(SymbolKey ''theta'', 2)] (Number 1) = Number 1"
  "evaluated_element exact_numerics [(SymbolKey ''theta'', 2)] (Number 0) = Number 0"
  "evaluated_element exact_numerics [(SymbolKey ''theta'', 2)] (Mul [Symbol ''theta'', ImaginaryUnit])
     = Mul [Number 2, ImaginaryUnit]"
  by (simp_all add: evaluated_element_def exact_numerics_def re_im_are_numbers_def
      sympify_complex_def)

lemma evaluate_theta_gate:
  "evaluate exact_numerics theta_heap theta_gate [(SymbolKey ''theta'', 2)] =
     Inr (theta_heap @ [theta_evaluated, theta_evaluated],
          \<lparr>qubits = [3], matrix_ref = 2, cls = CustomGate\<rparr>, [])"
proof -
  have v: "elems (matrix theta_heap theta_gate) \<noteq> []"
    "is_valid_operator (matrix theta_heap theta_gate) (qubits theta_gate)"
    "are_qubits_unique (qubits theta_gate)"
    using valid_theta_gate by (simp_all add: valid_gate_def valid_gate_nonempty)
  have m: "matrix theta_heap theta_gate =
     \<lparr>rows = 2, cols = 2,
       elems = [Number 1, Number 0, Number 0, Mul [Symbol ''theta'', ImaginaryUnit]]\<rparr>"
    by (simp add: theta_heap_def theta_gate_def matrix_def)
  have q: "qubits theta_gate = [3]" and l: "length theta_heap = 1"
    by (simp_all add: theta_gate_def theta_heap_def)
  have e: "evalf exact_numerics = (\<lambda>e. e)" by (simp add: exact_numerics_def)
  show ?thesis
    unfolding evaluate_parameterized [OF v] symbolic_params_theta_gate
    by (simp add: m q l e evaluated_element_theta theta_evaluated_def o_def)
qed

text \<open>
  The claim at a concrete gate: the gate with the entry \<open>theta * I\<close> on qubit 3,
  evaluated at \<open>theta = 2\<close>.
\<close>

theorem evaluate_new_gate_frame_witness:
  "matrix_ref theta_gate < length theta_heap
   \<and> valid_gate theta_heap theta_gate
   \<and> evaluate exact_numerics theta_heap theta_gate [(SymbolKey ''theta'', 2)] =
       Inr (theta_heap @ [theta_evaluated, theta_evaluated],
            \<lparr>qubits = [3], matrix_ref = 2, cls = CustomGate\<rparr>, [])
   \<and> qubits \<lparr>qubits = [3], matrix_ref = 2, cls = CustomGate\<rparr> = qubits theta_gate
   \<and> length theta_heap = 1
   \<and> (theta_heap @ [theta_evaluated, theta_evaluated]) ! 0 = theta_heap ! 0
   \<and> matrix (theta_heap @ [theta_evaluated, theta_evaluated]) theta_gate
       = matrix theta_heap theta_gate
   \<and> (\<exists>h1 g1 ws1. evaluate exact_numerics theta_heap theta_gate [(SymbolKey ''theta'', 2)]
          = Inr (h1, g1, ws1) \<and> cls g1 = CustomGate)"
proof -
  have a: "matrix_ref theta_gate < length theta_heap"
    by (simp add: theta_gate_def theta_heap_def)
  have l: "length theta_heap = 1" and z: "0 < length theta_heap"
    by (simp_all add: theta_heap_def)
  note v = valid_theta_gate
  note e = evaluate_theta_gate
  from evaluate_new_gate_frame
    [of theta_gate theta_heap exact_numerics "[(SymbolKey ''theta'', 2)]"
        "theta_heap @ [theta_evaluated, theta_evaluated]"
        "\<lparr>qubits = [3], matrix_ref = 2, cls = CustomGate\<rparr>" "[]"]
  show ?thesis using a v e l z by blast
qed

text \<open>
  Claim C6. The claim has the warning issued exactly when a variable of the mapping is
  absent from the gate's symbolic parameters. The source tests each key with
  \<^verbatim>\<open>symbol not in self.symbolic_params\<close>, a set of symbol objects, while the signature
  declares the keys to be \<^verbatim>\<open>str\<close>: for the gate with the parameter \<open>theta\<close> and the
  mapping \<open>{'theta': 2}\<close> the warning is issued although \<open>theta\<close> is a parameter of the
  gate. The substitution, which sympifies its keys, replaces \<open>theta\<close> all the same, and
  with the symbol object as the key there is no warning.
\<close>

theorem evaluate_warns_on_str_key:
  "evaluate exact_numerics theta_heap theta_gate [(StrKey ''theta'', 2)] =
     Inr (theta_heap @ [theta_evaluated, theta_evaluated],
          \<lparr>qubits = [3], matrix_ref = 2, cls = CustomGate\<rparr>,
          [SymbolsNotInGateWarning {''theta''} [StrKey ''theta'']])
   \<and> evaluate exact_numerics theta_heap theta_gate [(SymbolKey ''theta'', 2)] =
     Inr (theta_heap @ [theta_evaluated, theta_evaluated],
          \<lparr>qubits = [3], matrix_ref = 2, cls = CustomGate\<rparr>, [])"
proof -
  have v: "elems (matrix theta_heap theta_gate) \<noteq> []"
    "is_valid_operator (matrix theta_heap theta_gate) (qubits theta_gate)"
    "are_qubits_unique (qubits theta_gate)"
    using valid_theta_gate by (simp_all add: valid_gate_def valid_gate_nonempty)
  have m: "matrix theta_heap theta_gate =
     \<lparr>rows = 2, cols = 2,
       elems = [Number 1, Number 0, Number 0, Mul [Symbol ''theta'', ImaginaryUnit]]\<rparr>"
    by (simp add: theta_heap_def theta_gate_def matrix_def)
  have q: "qubits theta_gate = [3]" and l: "length theta_heap = 1"
    by (simp_all add: theta_gate_def theta_heap_def)
  have e: "evalf exact_numerics = (\<lambda>e. e)" by (simp add: exact_numerics_def)
  have el: "evaluated_element exact_numerics [(k, 2)] (Number 1) = Number 1"
    "evaluated_element exact_numerics [(k, 2)] (Number 0) = Number 0"
    "key_name k = ''theta'' \<Longrightarrow>
       evaluated_element exact_numerics [(k, 2)] (Mul [Symbol ''theta'', ImaginaryUnit])
         = Mul [Number 2, ImaginaryUnit]" for k
    by (simp_all add: evaluated_element_def exact_numerics_def re_im_are_numbers_def
        sympify_complex_def)
  show ?thesis
    unfolding evaluate_parameterized [OF v] symbolic_params_theta_gate
    by (simp add: m q l e el theta_evaluated_def o_def)
qed

lemma valid_x_gate: "valid_gate x_heap x_gate"
  by (simp add: valid_gate_def x_heap_def x_gate_def matrix_def is_valid_operator_def
      shape_def are_qubits_unique_def)

lemma evaluated_element_number:
  "evaluated_element exact_numerics m (Number x) = Number x"
  by (simp add: evaluated_element_def exact_numerics_def re_im_are_numbers_def
      sympify_complex_def)

text \<open>
  Claim C7. The claim has \<^verbatim>\<open>evaluate\<close> issue the not-parameterized warning for a fully
  numeric gate. The source takes that path only when \<^verbatim>\<open>is_parameterized\<close> is false,
  which it never is for a matrix with an entry: for the Pauli X gate and the empty
  mapping no warning is issued at all, and for a mapping with a key the warning is the
  one about unknown symbols. The gate returned is a new custom gate with the entries of
  the original.
\<close>

theorem evaluate_numeric_gate_without_warning:
  "evaluate exact_numerics x_heap x_gate [] =
     Inr (x_heap @ [x_heap ! 0, x_heap ! 0],
          \<lparr>qubits = [0], matrix_ref = 2, cls = CustomGate\<rparr>, [])
   \<and> evaluate exact_numerics x_heap x_gate [(SymbolKey ''theta'', 1)] =
     Inr (x_heap @ [x_heap ! 0, x_heap ! 0],
          \<lparr>qubits = [0], matrix_ref = 2, cls = CustomGate\<rparr>,
          [SymbolsNotInGateWarning {} [SymbolKey ''theta'']])"
proof -
  have v: "elems (matrix x_heap x_gate) \<noteq> []"
    "is_valid_operator (matrix x_heap x_gate) (qubits x_gate)"
    "are_qubits_unique (qubits x_gate)"
    using valid_x_gate by (simp_all add: valid_gate_def valid_gate_nonempty)
  have m: "matrix x_heap x_gate =
     \<lparr>rows = 2, cols = 2, elems = [Number 0, Number 1, Number 1, Number 0]\<rparr>"
    by (simp add: x_heap_def x_gate_def matrix_def)
  have p: "symbolic_params x_heap x_gate = {}"
    by (simp add: symbolic_params_def m)
  have q: "qubits x_gate = [0]" and l: "length x_heap = 1"
    and x0: "x_heap ! 0 = \<lparr>rows = 2, cols = 2, elems = [Number 0, Number 1, Number 1, Number 0]\<rparr>"
    by (simp_all add: x_gate_def x_heap_def)
  have e: "evalf exact_numerics = (\<lambda>e. e)" by (simp add: exact_numerics_def)
  show ?thesis
    unfolding evaluate_parameterized [OF v] p
    by (simp add: m q l e x0 evaluated_element_number o_def)
qed

section \<open>Saving and loading\<close>










section \<open>Expression trees\<close>

text \<open>
  Claim C9, as stated, fails: the conversion of a symbol, which is in the grammar the
  claim calls supported, is the not-implemented error.
\<close>

theorem expression_tree_from_sympy_symbol_fails:
  "expression_tree_from_sympy (Symbol ''theta'' :: real expr)
     = Inl (NotImplementedError (Symbol ''theta'') ''Symbol'')"
  by (simp add: expression_tree_from_sympy_def singledispatch_def registered_def)

text \<open>
  Claim C9, amended. No implementation is registered with the dispatcher, so for every
  expression, numbers and symbols included, the conversion fails with the
  not-implemented error that names the expression and its type.
\<close>

theorem expression_tree_from_sympy_not_implemented:
  "expression_tree_from_sympy e = Inl (NotImplementedError e (type_name e))"
  by (simp add: expression_tree_from_sympy_def singledispatch_def registered_def)

end
